theory Spec2Isabelle
  imports Complex_Main "HOL-Library.Word"
begin

unbundle bit_operations_syntax

section \<open>Values shared with the host runtime\<close>

subsection \<open>float64\<close>

text \<open>
  A Go \<open>float64\<close> is an IEEE-754 binary64 value; it is modelled by its 64-bit pattern:
  sign bit 63, biased exponent in bits 62..52, fraction in bits 51..0. \<open>float64_val\<close>
  reads the value of a pattern: exponent 2047 is an infinity (fraction 0) or a NaN, exponent
  0 is a zero or a subnormal number \<open>\<plusminus> m / 2^1074\<close>, and every other pattern is the
  normal number \<open>\<plusminus> (1 + m / 2^52) * 2^(e - 1023)\<close>, written here over the common
  denominator \<open>2^1075\<close>.

  The only float operation of the program is the comparison \<open>powerPct == 1\<close>. The
  comparison \<open>==\<close> of the language is that of IEEE-754: a NaN is unequal to everything,
  itself included, and two other floats are equal when their values are (so the two zeros
  are equal).
\<close>

type_synonym float64 = "64 word"

datatype float64_value = NaN | Infinity bool | Finite real

definition float64_sign :: "float64 \<Rightarrow> bool" where
  "float64_sign x = bit x 63"

definition float64_exponent :: "float64 \<Rightarrow> nat" where
  "float64_exponent x = unat (take_bit 11 (drop_bit 52 x))"

definition float64_fraction :: "float64 \<Rightarrow> nat" where
  "float64_fraction x = unat (take_bit 52 x)"

definition float64_val :: "float64 \<Rightarrow> float64_value" where
  "float64_val x =
     (let e = float64_exponent x; m = float64_fraction x;
          s = (if float64_sign x then - 1 else 1 :: real)
      in if e = 2047 then (if m = 0 then Infinity (float64_sign x) else NaN)
         else if e = 0 then Finite (s * real m / 2 ^ 1074)
         else Finite (s * (2 ^ 52 + real m) * 2 ^ e / 2 ^ 1075))"

definition float64_eq :: "float64 \<Rightarrow> float64 \<Rightarrow> bool" where
  "float64_eq a b =
     (float64_val a \<noteq> NaN \<and> float64_val b \<noteq> NaN \<and> float64_val a = float64_val b)"

text \<open>The constant \<open>1\<close> of the source, converted to float64, and the literal \<open>0\<close>.\<close>

definition float64_one :: float64 where
  "float64_one = 0x3FF0000000000000"

definition float64_zero :: float64 where
  "float64_zero = 0"

subsection \<open>Errors of package \<open>github.com/pkg/errors\<close>\<close>

text \<open>
  \<open>errors.New\<close> makes a fundamental error from a message; \<open>errors.Wrapf\<close> annotates a
  cause with a formatted message and is \<open>nil\<close> on a \<open>nil\<close> cause. A Go \<open>error\<close> is an
  interface value: \<open>nil\<close> is \<open>None\<close>.
\<close>

datatype error = Fundamental string | WithMessage error string

definition errors_New :: "string \<Rightarrow> error" where
  "errors_New msg = Fundamental msg"

definition errors_Wrapf :: "error option \<Rightarrow> string \<Rightarrow> error option" where
  "errors_Wrapf err msg = (case err of None \<Rightarrow> None | Some e \<Rightarrow> Some (WithMessage e msg))"

fun Error :: "error \<Rightarrow> string" where
  "Error (Fundamental msg) = msg"
| "Error (WithMessage cause msg) = msg @ '': '' @ Error cause"

fun Cause :: "error \<Rightarrow> error" where
  "Cause (Fundamental msg) = Fundamental msg"
| "Cause (WithMessage cause msg) = Cause cause"

subsection \<open>The board, its pins and the logger\<close>

text \<open>
  \<open>board.Board\<close>, \<open>board.GPIOPin\<close> and \<open>logging.Logger\<close> are interfaces of the host
  runtime. An interface value is \<open>nil\<close> (\<open>None\<close>) or an implementation, given here by
  what its methods return: \<open>GPIOPinByName\<close> returns the Go pair (pin, error) and \<open>Set\<close>
  returns an error. Calling a method on a \<open>nil\<close> interface value panics.
\<close>

record board_GPIOPin =
  pin_id :: string
  Set :: "bool \<Rightarrow> error option"

record board_Board =
  board_id :: string
  GPIOPinByName :: "string \<Rightarrow> board_GPIOPin option \<times> error option"

record logging_Logger =
  logger_id :: string

text \<open>What the program does to its collaborators, in the order it does it.\<close>

datatype event =
    LookupEv board_Board string
  | SetEv board_GPIOPin bool
  | LogEv logging_Logger error

datatype 'a outcome = Return 'a | Panic

section \<open>The winch motor\<close>

definition errUnimplemented :: error where
  "errUnimplemented = errors_New ''unimplemented''"

definition propellerPinName :: string where
  "propellerPinName = ''29''"

definition turningPinNames :: "string list" where
  "turningPinNames = [''40'', ''38'', ''36'', ''32'']"

definition wenchPinNames :: "string list" where
  "wenchPinNames = [''31'', ''33'', ''35'', ''37'']"

record winchmotor =
  Named :: string
  board :: "board_Board option"
  logger :: "logging_Logger option"

record Config =
  Board :: string

record resource_Config =
  ResourceName :: string
  Attributes :: "(string \<times> string) list"

record motor_Properties =
  PositionReporting :: bool

definition motor_Properties_zero :: motor_Properties where
  "motor_Properties_zero = \<lparr>PositionReporting = False\<rparr>"

type_synonym resource_Dependencies = "string \<rightharpoonup> board_Board"

text \<open>
  A method call on a \<open>*winchmotor\<close>: what it returned (or that it panicked), the
  component afterwards, and the events it caused. The \<open>context.Context\<close> and the
  \<open>extra\<close> map are read by no method and are left out.
\<close>

record 'a call =
  returned :: "'a outcome"
  after :: winchmotor
  events :: "event list"

subsection \<open>The pin-write primitive\<close>

record pinValue =
  name :: string
  high :: bool

text \<open>
  \<open>setPin\<close> looks the pin up on the board, then sets its level. Each failure is given
  to the logger and then returned. The board, the pin that the lookup returned and the
  logger are interface values, so a call on one that is \<open>nil\<close> panics: the events up to
  that point have happened and nothing is returned.
\<close>

definition setPin ::
  "board_Board option \<Rightarrow> logging_Logger option \<Rightarrow> pinValue
    \<Rightarrow> error option outcome \<times> event list" where
  "setPin b l pv =
     (case b of
        None \<Rightarrow> (Panic, [])
      | Some bd \<Rightarrow>
          (case GPIOPinByName bd (name pv) of (pinReturnValue, err) \<Rightarrow>
             (let looked = [LookupEv bd (name pv)] in
              case err of
                Some e \<Rightarrow>
                  (case l of
                     None \<Rightarrow> (Panic, looked)
                   | Some lg \<Rightarrow> (Return (Some e), looked @ [LogEv lg e]))
              | None \<Rightarrow>
                  (case pinReturnValue of
                     None \<Rightarrow> (Panic, looked)
                   | Some pin \<Rightarrow>
                       (let written = looked @ [SetEv pin (high pv)] in
                        case Set pin (high pv) of
                          Some e \<Rightarrow>
                            (case l of
                               None \<Rightarrow> (Panic, written)
                             | Some lg \<Rightarrow> (Return (Some e), written @ [LogEv lg e]))
                        | None \<Rightarrow> (Return None, written))))))"

subsection \<open>Construction\<close>

definition newWinchMotor ::
  "resource_Dependencies \<Rightarrow> resource_Config \<Rightarrow> logging_Logger option
    \<Rightarrow> (winchmotor \<times> error option) \<times> event list" where
  "newWinchMotor deps conf lg =
     (let wm = \<lparr>Named = ResourceName conf, board = None, logger = lg\<rparr>
      in ((wm, None), []))"

subsection \<open>SetPower\<close>

definition SetPower :: "winchmotor \<Rightarrow> float64 \<Rightarrow> error option call" where
  "SetPower wm powerPct =
     (case setPin (board wm) None
             \<lparr>name = propellerPinName, high = float64_eq powerPct float64_one\<rparr> of
        (err, evs) \<Rightarrow> \<lparr>returned = err, after = wm, events = evs\<rparr>)"

subsection \<open>Reconfigure\<close>

text \<open>
  \<open>resource.NativeConfig\<close> and \<open>board.FromDependencies\<close> are functions of the host
  runtime, so \<open>Reconfigure\<close> takes them as the parameters \<open>nativeConfig\<close> and
  \<open>fromDependencies\<close>. Each returns a Go pair (value, error). The pointer that
  \<open>NativeConfig\<close> returns is dereferenced to read the board name, which panics on
  \<open>nil\<close>; the board that \<open>FromDependencies\<close> returns is stored in the component before
  the error is looked at. The message of \<open>Wrapf\<close> is its format with the board name in
  the place of \<open>%v\<close>.
\<close>

definition Reconfigure ::
  "(resource_Config \<Rightarrow> Config option \<times> error option)
    \<Rightarrow> (resource_Dependencies \<Rightarrow> string \<Rightarrow> board_Board option \<times> error option)
    \<Rightarrow> winchmotor \<Rightarrow> resource_Dependencies \<Rightarrow> resource_Config \<Rightarrow> error option call" where
  "Reconfigure nativeConfig fromDependencies wm deps conf =
     (let wm1 = wm\<lparr>board := None\<rparr> in
      case nativeConfig conf of (baseConfig, err) \<Rightarrow>
        (case err of
           Some e \<Rightarrow> \<lparr>returned = Return (Some e), after = wm1, events = []\<rparr>
         | None \<Rightarrow>
             (case baseConfig of
                None \<Rightarrow> \<lparr>returned = Panic, after = wm1, events = []\<rparr>
              | Some cfg \<Rightarrow>
                  (case fromDependencies deps (Board cfg) of (b, err2) \<Rightarrow>
                     (let wm2 = wm1\<lparr>board := b\<rparr> in
                      case err2 of
                        Some e \<Rightarrow>
                          \<lparr>returned =
                             Return (errors_Wrapf (Some e)
                               (''unable to get board '' @ Board cfg @ '' for mybase'')),
                           after = wm2, events = []\<rparr>
                      | None \<Rightarrow> \<lparr>returned = Return None, after = wm2, events = []\<rparr>)))))"

subsection \<open>The unsupported operations\<close>

definition GoFor :: "winchmotor \<Rightarrow> float64 \<Rightarrow> float64 \<Rightarrow> error option call" where
  "GoFor wm rpm revolutions =
     \<lparr>returned = Return (Some errUnimplemented), after = wm, events = []\<rparr>"

definition GoTo :: "winchmotor \<Rightarrow> float64 \<Rightarrow> float64 \<Rightarrow> error option call" where
  "GoTo wm rpm positionRevolutions =
     \<lparr>returned = Return (Some errUnimplemented), after = wm, events = []\<rparr>"

definition SetRPM :: "winchmotor \<Rightarrow> float64 \<Rightarrow> error option call" where
  "SetRPM wm rpm =
     \<lparr>returned = Return (Some errUnimplemented), after = wm, events = []\<rparr>"

definition ResetZeroPosition :: "winchmotor \<Rightarrow> float64 \<Rightarrow> error option call" where
  "ResetZeroPosition wm offset =
     \<lparr>returned = Return (Some errUnimplemented), after = wm, events = []\<rparr>"

definition Position :: "winchmotor \<Rightarrow> (float64 \<times> error option) call" where
  "Position wm =
     \<lparr>returned = Return (float64_zero, Some errUnimplemented), after = wm, events = []\<rparr>"

definition IsMoving :: "winchmotor \<Rightarrow> (bool \<times> error option) call" where
  "IsMoving wm =
     \<lparr>returned = Return (False, Some errUnimplemented), after = wm, events = []\<rparr>"

definition IsPowered :: "winchmotor \<Rightarrow> (bool \<times> float64 \<times> error option) call" where
  "IsPowered wm =
     \<lparr>returned = Return (False, float64_zero, Some errUnimplemented), after = wm,
      events = []\<rparr>"

definition Properties :: "winchmotor \<Rightarrow> (motor_Properties \<times> error option) call" where
  "Properties wm =
     \<lparr>returned = Return (motor_Properties_zero, Some errUnimplemented), after = wm,
      events = []\<rparr>"

definition Close :: "winchmotor \<Rightarrow> error option call" where
  "Close wm = \<lparr>returned = Return (Some errUnimplemented), after = wm, events = []\<rparr>"

definition Stop :: "winchmotor \<Rightarrow> error option call" where
  "Stop wm = \<lparr>returned = Return (Some errUnimplemented), after = wm, events = []\<rparr>"

subsection \<open>Validation of the configuration\<close>

definition Validate :: "Config \<Rightarrow> string \<Rightarrow> string list \<times> error option" where
  "Validate cfg path = ([''''], None)"

section \<open>Doubles of the host runtime\<close>

text \<open>
  Concrete collaborators, on which the operations are run: a pin that takes every level,
  a pin whose write fails, a board with pin 29, a board with no pin, a board whose pin 29
  cannot be written, a logger, a set of dependencies that knows the board \<open>b1\<close>, and
  the two functions of the host runtime that \<open>Reconfigure\<close> calls. The conversion reads
  the attribute \<open>board-1\<close>; the resolution looks the name up and returns no board with
  its error.
\<close>

definition pin29 :: board_GPIOPin where
  "pin29 = \<lparr>pin_id = ''29'', Set = (\<lambda>lvl. None)\<rparr>"

definition pin29_stuck :: board_GPIOPin where
  "pin29_stuck = \<lparr>pin_id = ''29'', Set = (\<lambda>lvl. Some (Fundamental ''write failed''))\<rparr>"

definition b1 :: board_Board where
  "b1 = \<lparr>board_id = ''b1'',
          GPIOPinByName = (\<lambda>n. if n = ''29'' then (Some pin29, None)
                                 else (None, Some (Fundamental ''no such pin'')))\<rparr>"

definition b_nopin :: board_Board where
  "b_nopin = \<lparr>board_id = ''b0'',
               GPIOPinByName = (\<lambda>n. (None, Some (Fundamental ''no such pin'')))\<rparr>"

definition b_stuck :: board_Board where
  "b_stuck = \<lparr>board_id = ''b2'', GPIOPinByName = (\<lambda>n. (Some pin29_stuck, None))\<rparr>"

definition sink :: logging_Logger where
  "sink = \<lparr>logger_id = ''winch''\<rparr>"

definition deps1 :: resource_Dependencies where
  "deps1 = [''b1'' \<mapsto> b1]"

definition nativeConfig_double :: "resource_Config \<Rightarrow> Config option \<times> error option" where
  "nativeConfig_double conf =
     (case map_of (Attributes conf) ''board-1'' of
        None \<Rightarrow> (None, Some (Fundamental ''unexpected attributes''))
      | Some n \<Rightarrow> (Some \<lparr>Board = n\<rparr>, None))"

definition fromDependencies_double ::
  "resource_Dependencies \<Rightarrow> string \<Rightarrow> board_Board option \<times> error option" where
  "fromDependencies_double deps n =
     (case deps n of
        None \<Rightarrow> (None, Some (Fundamental ''resource missing from dependencies''))
      | Some b \<Rightarrow> (Some b, None))"

definition conf_b1 :: resource_Config where
  "conf_b1 = \<lparr>ResourceName = ''winch'', Attributes = [(''board-1'', ''b1'')]\<rparr>"

definition conf_missing :: resource_Config where
  "conf_missing = \<lparr>ResourceName = ''winch'', Attributes = [(''board-1'', ''missing'')]\<rparr>"

definition conf_bad :: resource_Config where
  "conf_bad = \<lparr>ResourceName = ''winch'', Attributes = []\<rparr>"

definition wm_new :: winchmotor where
  "wm_new = fst (fst (newWinchMotor deps1 conf_b1 (Some sink)))"

definition wm_b1 :: winchmotor where
  "wm_b1 = after (Reconfigure nativeConfig_double fromDependencies_double wm_new deps1 conf_b1)"

section \<open>Properties\<close>

subsection \<open>The float64 comparison with 1\<close>

lemmas float64_defs =
  float64_val_def float64_sign_def float64_exponent_def float64_fraction_def

lemma float64_val_one: "float64_val float64_one = Finite 1"
  by (simp add: float64_defs float64_one_def)

lemma float64_eq_one: "float64_eq x float64_one \<longleftrightarrow> float64_val x = Finite 1"
  by (auto simp: float64_eq_def float64_val_one)

text \<open>
  Exactly one bit pattern has the value 1. A subnormal number is below \<open>2^52 / 2^1074\<close>;
  for a normal one, \<open>(2^52 + m) * 2^e = 2^1075\<close> with \<open>m < 2^52\<close> forces \<open>e = 1023\<close>
  and \<open>m = 0\<close>; the pattern is then rebuilt from its three fields.
\<close>

lemma normal_one_nat:
  fixes m e :: nat
  assumes eq: "(2 ^ 52 + m) * 2 ^ e = (2::nat) ^ 1075" and m: "m < 2 ^ 52"
  shows "e = 1023 \<and> m = 0"
proof -
  have "(2::nat) ^ (52 + e) \<le> (2 ^ 52 + m) * 2 ^ e"
    by (simp add: power_add)
  with eq have "(2::nat) ^ (52 + e) \<le> 2 ^ 1075"
    by (simp only:)
  then have up: "52 + e \<le> 1075"
    by (rule power_le_imp_le_exp [rotated]) simp
  have "2 ^ 52 + m < (2::nat) ^ 53"
    using m by simp
  then have "(2 ^ 52 + m) * 2 ^ e < (2::nat) ^ 53 * 2 ^ e"
    by (rule mult_strict_right_mono) simp
  then have "(2 ^ 52 + m) * 2 ^ e < (2::nat) ^ (53 + e)"
    by (simp only: power_add)
  with eq have "(2::nat) ^ 1075 < 2 ^ (53 + e)"
    by (simp only:)
  then have lo: "1075 < 53 + e"
    by (rule power_less_imp_less_exp [rotated]) simp
  from up lo have e: "e = 1023"
    by simp
  have "(2::nat) ^ 1075 = 2 ^ 52 * 2 ^ 1023"
    by (simp only: power_add [symmetric]) simp
  with eq e have "(2 ^ 52 + m) * 2 ^ 1023 = (2::nat) ^ 52 * 2 ^ 1023"
    by (simp only:)
  then have "2 ^ 52 + m = (2::nat) ^ 52"
    by (simp only: mult_cancel2) simp
  then have "m = 0"
    by simp
  with e show ?thesis by simp
qed

lemma drop_bit_63_clear:
  fixes x :: "64 word"
  assumes "\<not> bit x 63"
  shows "drop_bit 63 x = 0"
proof (rule bit_word_eqI)
  fix n :: nat
  assume "n < LENGTH(64)"
  show "bit (drop_bit 63 x) n = bit (0 :: 64 word) n"
  proof (cases "n = 0")
    case True
    with assms show ?thesis by (simp add: bit_drop_bit_eq)
  next
    case False
    then have "\<not> 63 + n < LENGTH(64)" by simp
    then have "\<not> bit x (63 + n)"
      using bit_imp_le_length [of x "63 + n"] by blast
    then show ?thesis by (simp add: bit_drop_bit_eq add.commute)
  qed
qed

lemma float64_from_fields:
  fixes x :: "64 word"
  assumes "\<not> float64_sign x" and "float64_exponent x = 1023" and "float64_fraction x = 0"
  shows "x = float64_one"
proof -
  have hi: "drop_bit 63 x = 0"
    using assms(1) by (simp add: float64_sign_def drop_bit_63_clear)
  have "unat (take_bit 11 (drop_bit 52 x)) = unat (1023 :: 64 word)"
    using assms(2) by (simp add: float64_exponent_def)
  then have ex: "take_bit 11 (drop_bit 52 x) = 1023"
    by (rule word_unat_eq_iff [THEN iffD2])
  have fr: "take_bit 52 x = 0"
    using assms(3) by (simp add: float64_fraction_def unat_eq_0)
  have "drop_bit 52 x = push_bit 11 (drop_bit 11 (drop_bit 52 x)) + take_bit 11 (drop_bit 52 x)"
    by (simp only: bits_ident)
  also have "\<dots> = 1023"
    by (simp add: drop_bit_drop_bit hi ex)
  finally have top: "drop_bit 52 x = 1023" .
  have "x = push_bit 52 (drop_bit 52 x) + take_bit 52 x"
    by (simp only: bits_ident)
  also have "\<dots> = float64_one"
    by (simp add: top fr float64_one_def push_bit_eq_mult)
  finally show ?thesis .
qed


lemma float64_fraction_bound: "float64_fraction x < 2 ^ 52"
proof -
  have "unat (take_bit 52 x) = take_bit 52 (unat x)"
    by (rule unsigned_take_bit_eq)
  moreover have "take_bit 52 (unat x) < 2 ^ 52"
    by (rule take_bit_nat_less_exp)
  ultimately show ?thesis
    by (simp only: float64_fraction_def)
qed

lemma subnormal_not_one:
  fixes m :: nat and s :: real
  assumes "m < 2 ^ 52" and "s = 1 \<or> s = - 1"
  shows "s * real m / 2 ^ 1074 \<noteq> 1"
proof
  assume "s * real m / 2 ^ 1074 = 1"
  then have prod: "s * real m = 2 ^ 1074"
    by (simp add: field_simps)
  have "real m < 2 ^ 52"
    using assms(1) by (metis of_nat_less_iff of_nat_numeral of_nat_power)
  also have "\<dots> < (2::real) ^ 1074"
    by (rule power_strict_increasing) simp_all
  finally have small: "real m < 2 ^ 1074" .
  from assms(2) show False
  proof
    assume "s = 1"
    with prod small show False by simp
  next
    assume "s = - 1"
    with prod have "- real m = 2 ^ 1074" by simp
    moreover have "(0::real) < 2 ^ 1074" by (rule zero_less_power) simp
    moreover have "- real m \<le> 0" by simp
    ultimately show False by linarith
  qed
qed

lemma normal_one_real:
  fixes m e :: nat and s :: real
  assumes val: "s * (2 ^ 52 + real m) * 2 ^ e / 2 ^ 1075 = 1"
    and m: "m < 2 ^ 52" and s: "s = 1 \<or> s = - 1"
  shows "s = 1 \<and> e = 1023 \<and> m = 0"
proof -
  from val have prod: "s * ((2 ^ 52 + real m) * 2 ^ e) = 2 ^ 1075"
    by (simp add: field_simps)
  have pos: "0 < (2 ^ 52 + real m) * 2 ^ e"
    by (simp add: add_pos_nonneg)
  have big: "(0::real) < 2 ^ 1075"
    by (rule zero_less_power) simp
  have s1: "s = 1"
  proof (rule ccontr)
    assume "s \<noteq> 1"
    with s have "s = - 1" by simp
    with prod have "- ((2 ^ 52 + real m) * 2 ^ e) = 2 ^ 1075" by simp
    with pos big show False by linarith
  qed
  with prod have "(2 ^ 52 + real m) * 2 ^ e = 2 ^ 1075"
    by simp
  then have "real ((2 ^ 52 + m) * 2 ^ e) = real (2 ^ 1075)"
    by (simp only: of_nat_mult of_nat_add of_nat_power of_nat_numeral)
  then have "(2 ^ 52 + m) * 2 ^ e = (2::nat) ^ 1075"
    by (simp only: of_nat_eq_iff)
  with m have "e = 1023 \<and> m = 0"
    by (rule normal_one_nat [rotated])
  with s1 show ?thesis by simp
qed

lemma float64_val_one_unique:
  assumes "float64_val x = Finite 1"
  shows "x = float64_one"
proof -
  let ?s = "if float64_sign x then - 1 else 1 :: real"
  have s: "?s = 1 \<or> ?s = - 1" by simp
  note m = float64_fraction_bound [of x]
  have not_top: "float64_exponent x \<noteq> 2047"
    using assms by (auto simp: float64_val_def Let_def split: if_splits)
  have not_sub: "float64_exponent x \<noteq> 0"
  proof
    assume z: "float64_exponent x = 0"
    with assms have "?s * real (float64_fraction x) / 2 ^ 1074 = 1"
      by (simp only: float64_val_def Let_def) simp
    with subnormal_not_one [OF m s] show False by blast
  qed
  from assms not_top not_sub
  have "?s * (2 ^ 52 + real (float64_fraction x)) * 2 ^ float64_exponent x / 2 ^ 1075 = 1"
    by (simp only: float64_val_def Let_def if_False float64_value.inject)
  from normal_one_real [OF this m s]
  have "\<not> float64_sign x" and "float64_exponent x = 1023" and "float64_fraction x = 0"
    by (simp_all split: if_splits)
  then show ?thesis by (rule float64_from_fields)
qed

subsection \<open>The cases of \<open>setPin\<close>, \<open>SetPower\<close> and \<open>Reconfigure\<close>\<close>

lemma setPin_nil_board: "setPin None l pv = (Panic, [])"
  by (simp add: setPin_def)

lemma setPin_lookup_failed:
  "GPIOPinByName b (name pv) = (q, Some e) \<Longrightarrow>
   setPin (Some b) l pv =
     (case l of None \<Rightarrow> (Panic, [LookupEv b (name pv)])
      | Some lg \<Rightarrow> (Return (Some e), [LookupEv b (name pv), LogEv lg e]))"
  by (simp add: setPin_def split: option.split)

lemma setPin_written:
  "GPIOPinByName b (name pv) = (Some p, None) \<Longrightarrow>
   setPin (Some b) l pv =
     (case Set p (high pv) of
        None \<Rightarrow> (Return None, [LookupEv b (name pv), SetEv p (high pv)])
      | Some e \<Rightarrow>
          (case l of
             None \<Rightarrow> (Panic, [LookupEv b (name pv), SetEv p (high pv)])
           | Some lg \<Rightarrow>
               (Return (Some e), [LookupEv b (name pv), SetEv p (high pv), LogEv lg e])))"
  by (simp add: setPin_def split: option.split)

lemma SetPower_parts:
  "returned (SetPower wm x)
     = fst (setPin (board wm) None \<lparr>name = propellerPinName, high = float64_eq x float64_one\<rparr>)"
  "events (SetPower wm x)
     = snd (setPin (board wm) None \<lparr>name = propellerPinName, high = float64_eq x float64_one\<rparr>)"
  "after (SetPower wm x) = wm"
  by (simp_all add: SetPower_def split: prod.split)

lemma Reconfigure_conversion_failed:
  "nativeConfig conf = (c, Some e) \<Longrightarrow>
   Reconfigure nativeConfig fromDependencies wm deps conf
     = \<lparr>returned = Return (Some e), after = wm\<lparr>board := None\<rparr>, events = []\<rparr>"
  by (simp add: Reconfigure_def)

lemma Reconfigure_nil_config:
  "nativeConfig conf = (None, None) \<Longrightarrow>
   Reconfigure nativeConfig fromDependencies wm deps conf
     = \<lparr>returned = Panic, after = wm\<lparr>board := None\<rparr>, events = []\<rparr>"
  by (simp add: Reconfigure_def)

lemma Reconfigure_resolved:
  "nativeConfig conf = (Some cfg, None) \<Longrightarrow> fromDependencies deps (Board cfg) = (b, err) \<Longrightarrow>
   Reconfigure nativeConfig fromDependencies wm deps conf
     = \<lparr>returned =
          Return (errors_Wrapf err (''unable to get board '' @ Board cfg @ '' for mybase'')),
        after = wm\<lparr>board := b\<rparr>, events = []\<rparr>"
  by (cases err) (simp_all add: Reconfigure_def errors_Wrapf_def)

lemma wm_new_eq: "wm_new = \<lparr>Named = ''winch'', board = None, logger = Some sink\<rparr>"
  by (simp add: wm_new_def newWinchMotor_def conf_b1_def)

lemma wm_b1_eq: "wm_b1 = \<lparr>Named = ''winch'', board = Some b1, logger = Some sink\<rparr>"
  by (simp add: wm_b1_def wm_new_eq Reconfigure_def nativeConfig_double_def
      fromDependencies_double_def conf_b1_def deps1_def)

subsection \<open>SetPower\<close>

text \<open>
  C1. On a component bound to a board on which the lookup of the propeller pin succeeds,
  \<open>SetPower\<close> looks up pin 29 and writes one level to it: high if and only if the power
  has the value 1, low for every other float (negative, fractional, zero, infinite or
  NaN). The value 1 has a single bit pattern, so high is written for that pattern only.
\<close>

theorem SetPower_propeller_level:
  assumes "board wm = Some b" and "GPIOPinByName b propellerPinName = (Some p, None)"
  shows "events (SetPower wm powerPct)
           = [LookupEv b ''29'', SetEv p (float64_val powerPct = Finite 1)]
         \<and> (float64_val powerPct = Finite 1) = (powerPct = float64_one)"
proof -
  let ?pv = "\<lparr>name = propellerPinName, high = float64_eq powerPct float64_one\<rparr>"
  have "GPIOPinByName b (name ?pv) = (Some p, None)"
    using assms(2) by simp
  then have "snd (setPin (Some b) None ?pv)
               = [LookupEv b propellerPinName, SetEv p (float64_eq powerPct float64_one)]"
    by (simp add: setPin_written split: option.split)
  then have "events (SetPower wm powerPct)
               = [LookupEv b ''29'', SetEv p (float64_val powerPct = Finite 1)]"
    by (simp add: SetPower_parts assms(1) float64_eq_one propellerPinName_def)
  moreover have "(float64_val powerPct = Finite 1) = (powerPct = float64_one)"
    using float64_val_one_unique [of powerPct] float64_val_one by blast
  ultimately show ?thesis by simp
qed

theorem SetPower_propeller_level_witness:
  "board wm_b1 = Some b1 \<and> GPIOPinByName b1 propellerPinName = (Some pin29, None)
   \<and> events (SetPower wm_b1 float64_one) = [LookupEv b1 ''29'', SetEv pin29 True]
   \<and> events (SetPower wm_b1 0xBFF0000000000000) = [LookupEv b1 ''29'', SetEv pin29 False]
   \<and> events (SetPower wm_b1 0) = [LookupEv b1 ''29'', SetEv pin29 False]
   \<and> events (SetPower wm_b1 0x3FE0000000000000) = [LookupEv b1 ''29'', SetEv pin29 False]
   \<and> events (SetPower wm_b1 0x3FEFF7CED916872B) = [LookupEv b1 ''29'', SetEv pin29 False]
   \<and> events (SetPower wm_b1 0xBFE0000000000000) = [LookupEv b1 ''29'', SetEv pin29 False]
   \<and> events (SetPower wm_b1 0x7FF8000000000000) = [LookupEv b1 ''29'', SetEv pin29 False]"
proof -
  have bound: "board wm_b1 = Some b1"
    by (simp add: wm_b1_eq)
  have pin: "GPIOPinByName b1 propellerPinName = (Some pin29, None)"
    by (simp add: b1_def propellerPinName_def)
  note lvl = SetPower_propeller_level [OF bound pin, THEN conjunct1]
  show ?thesis
    by (simp add: bound pin lvl float64_defs float64_one_def)
qed

text \<open>
  C2, as stated, fails: on a freshly constructed, unbound component \<open>SetPower\<close> does not
  return an error. The pin lookup is called on the \<open>nil\<close> board, which panics.
\<close>

theorem SetPower_unbound_counterexample:
  "returned (SetPower wm_new float64_one) = Panic"
  by (simp add: SetPower_parts wm_new_eq setPin_nil_board)

text \<open>
  C2, amended. For every power value, \<open>SetPower\<close> on an unbound component returns no
  error value: the call panics at the lookup on the \<open>nil\<close> board. No pin lookup and no
  pin write reaches any board, and the component is unchanged.
\<close>

theorem SetPower_unbound_panics:
  assumes "board wm = None"
  shows "SetPower wm powerPct = \<lparr>returned = Panic, after = wm, events = []\<rparr>"
  using assms by (simp add: SetPower_def setPin_nil_board)

theorem SetPower_unbound_panics_witness:
  "board wm_new = None
   \<and> SetPower wm_new float64_zero = \<lparr>returned = Panic, after = wm_new, events = []\<rparr>"
proof -
  have unbound: "board wm_new = None"
    by (simp add: wm_new_eq)
  from unbound SetPower_unbound_panics [OF unbound, of float64_zero]
  show ?thesis by simp
qed

text \<open>
  C4. \<open>setPin\<close> gives each failure to its logger and then returns it, but \<open>SetPower\<close>
  passes \<open>nil\<close> as that logger although the component stores one. So when the lookup of
  pin 29 fails, or the write to it fails, on a bound component whose logger is set,
  \<open>SetPower\<close> panics at the logging call: no error reaches the logger and none is
  returned to the caller. The events are the lookup alone, or the lookup and the one
  write.
\<close>

theorem SetPower_failure_panics:
  "SetPower \<lparr>Named = ''winch'', board = Some b_nopin, logger = Some sink\<rparr> float64_one
     = \<lparr>returned = Panic,
        after = \<lparr>Named = ''winch'', board = Some b_nopin, logger = Some sink\<rparr>,
        events = [LookupEv b_nopin ''29'']\<rparr>
   \<and> SetPower \<lparr>Named = ''winch'', board = Some b_stuck, logger = Some sink\<rparr> float64_one
     = \<lparr>returned = Panic,
        after = \<lparr>Named = ''winch'', board = Some b_stuck, logger = Some sink\<rparr>,
        events = [LookupEv b_stuck ''29'', SetEv pin29_stuck True]\<rparr>"
  by (simp add: SetPower_def setPin_def b_nopin_def b_stuck_def pin29_stuck_def
      propellerPinName_def float64_eq_one float64_val_one)

subsection \<open>Reconfigure\<close>

text \<open>
  C3. When the configuration converts and the resolution of its board name fails
  (returning no board, with an error), \<open>Reconfigure\<close> returns that error wrapped with
  a message that holds the attempted board name, and leaves the component unbound,
  whatever board it held before. No pin is touched.
\<close>

theorem Reconfigure_resolution_failure:
  assumes "nativeConfig conf = (Some cfg, None)"
    and "fromDependencies deps (Board cfg) = (None, Some e)"
  shows "Reconfigure nativeConfig fromDependencies wm deps conf
           = \<lparr>returned =
                Return (Some (WithMessage e (''unable to get board '' @ Board cfg @ '' for mybase''))),
              after = wm\<lparr>board := None\<rparr>, events = []\<rparr>"
  using assms by (simp add: Reconfigure_def errors_Wrapf_def)

theorem Reconfigure_resolution_failure_witness:
  "nativeConfig_double conf_missing = (Some \<lparr>Board = ''missing''\<rparr>, None)
   \<and> fromDependencies_double deps1 ''missing''
       = (None, Some (Fundamental ''resource missing from dependencies''))
   \<and> board wm_b1 = Some b1
   \<and> Reconfigure nativeConfig_double fromDependencies_double wm_b1 deps1 conf_missing
       = \<lparr>returned =
            Return (Some (WithMessage (Fundamental ''resource missing from dependencies'')
                            ''unable to get board missing for mybase'')),
          after = wm_new, events = []\<rparr>
   \<and> board wm_new = None \<and> events (SetPower wm_new float64_one) = []"
proof -
  have conv: "nativeConfig_double conf_missing = (Some \<lparr>Board = ''missing''\<rparr>, None)"
    by (simp add: nativeConfig_double_def conf_missing_def)
  have res: "fromDependencies_double deps1 (Board \<lparr>Board = ''missing''\<rparr>)
               = (None, Some (Fundamental ''resource missing from dependencies''))"
    by (simp add: fromDependencies_double_def deps1_def)
  note fails = Reconfigure_resolution_failure
    [where nativeConfig = nativeConfig_double and fromDependencies = fromDependencies_double
       and conf = conf_missing and deps = deps1 and wm = wm_b1, OF conv res]
  from fails conv res show ?thesis
    by (simp add: wm_b1_eq wm_new_eq SetPower_parts setPin_nil_board)
qed

text \<open>
  C6. When the configuration converts and the resolution of its board name succeeds,
  \<open>Reconfigure\<close> returns no error, the board field holds the resolved handle, the other
  fields are unchanged, and no pin is looked up or written.
\<close>

theorem Reconfigure_success:
  assumes "nativeConfig conf = (Some cfg, None)"
    and "fromDependencies deps (Board cfg) = (b, None)"
  shows "Reconfigure nativeConfig fromDependencies wm deps conf
           = \<lparr>returned = Return None, after = wm\<lparr>board := b\<rparr>, events = []\<rparr>"
  using assms by (simp add: Reconfigure_def)

theorem Reconfigure_success_witness:
  "nativeConfig_double conf_b1 = (Some \<lparr>Board = ''b1''\<rparr>, None)
   \<and> fromDependencies_double deps1 ''b1'' = (Some b1, None)
   \<and> Reconfigure nativeConfig_double fromDependencies_double wm_new deps1 conf_b1
       = \<lparr>returned = Return None, after = wm_new\<lparr>board := Some b1\<rparr>, events = []\<rparr>
   \<and> SetPower (wm_new\<lparr>board := Some b1\<rparr>) float64_one
       = \<lparr>returned = Return None, after = wm_new\<lparr>board := Some b1\<rparr>,
          events = [LookupEv b1 ''29'', SetEv pin29 True]\<rparr>"
proof -
  have conv: "nativeConfig_double conf_b1 = (Some \<lparr>Board = ''b1''\<rparr>, None)"
    by (simp add: nativeConfig_double_def conf_b1_def)
  have res: "fromDependencies_double deps1 (Board \<lparr>Board = ''b1''\<rparr>) = (Some b1, None)"
    by (simp add: fromDependencies_double_def deps1_def)
  note ok = Reconfigure_success
    [where nativeConfig = nativeConfig_double and fromDependencies = fromDependencies_double
       and conf = conf_b1 and deps = deps1 and wm = wm_new, OF conv res]
  have power: "SetPower (wm_new\<lparr>board := Some b1\<rparr>) float64_one
       = \<lparr>returned = Return None, after = wm_new\<lparr>board := Some b1\<rparr>,
          events = [LookupEv b1 ''29'', SetEv pin29 True]\<rparr>"
    by (simp add: SetPower_def setPin_def b1_def pin29_def propellerPinName_def
        float64_eq_one float64_val_one)
  from ok conv res power show ?thesis by simp
qed

text \<open>
  C8. The result of \<open>Reconfigure\<close> does not depend on the board bound before the call,
  since the field is cleared first. Given that the resolution returns no board together
  with an error, the board field after the call is \<open>nil\<close> whenever the call does not
  return success (conversion error, \<open>nil\<close> configuration, resolution error), and is
  the handle that the resolution returned when it does.
\<close>

theorem Reconfigure_never_stale:
  assumes nil_on_error: "\<forall>d n b e. fromDependencies d n = (b, Some e) \<longrightarrow> b = None"
  shows "Reconfigure nativeConfig fromDependencies (wm\<lparr>board := old\<rparr>) deps conf
           = Reconfigure nativeConfig fromDependencies (wm\<lparr>board := None\<rparr>) deps conf
         \<and> (returned (Reconfigure nativeConfig fromDependencies wm deps conf) \<noteq> Return None
              \<longrightarrow> board (after (Reconfigure nativeConfig fromDependencies wm deps conf)) = None)
         \<and> (returned (Reconfigure nativeConfig fromDependencies wm deps conf) = Return None
              \<longrightarrow> (\<exists>cfg. nativeConfig conf = (Some cfg, None)
                     \<and> fromDependencies deps (Board cfg)
                         = (board (after (Reconfigure nativeConfig fromDependencies wm deps conf)),
                            None)))"
    (is "?fresh \<and> ?failed \<and> ?succeeded")
proof -
  have ?fresh
    by (simp add: Reconfigure_def)
  moreover have "?failed \<and> ?succeeded"
  proof -
    obtain c err where conv: "nativeConfig conf = (c, err)"
      by (cases "nativeConfig conf")
    show ?thesis
    proof (cases err)
      case (Some e)
      with conv show ?thesis
        by (simp add: Reconfigure_conversion_failed)
    next
      case None
      note no_err = this
      show ?thesis
      proof (cases c)
        case None
        with conv no_err show ?thesis
          by (simp add: Reconfigure_nil_config)
      next
        case (Some cfg)
        obtain b err2 where res: "fromDependencies deps (Board cfg) = (b, err2)"
          by (cases "fromDependencies deps (Board cfg)")
        from conv no_err Some have conv': "nativeConfig conf = (Some cfg, None)"
          by simp
        show ?thesis
        proof (cases err2)
          case None
          with conv' res show ?thesis
            by (simp add: Reconfigure_resolved errors_Wrapf_def)
        next
          case (Some e)
          with res nil_on_error have "b = None"
            by blast
          with conv' res Some show ?thesis
            by (simp add: Reconfigure_resolved errors_Wrapf_def)
        qed
      qed
    qed
  qed
  ultimately show ?thesis by blast
qed

theorem Reconfigure_never_stale_witness:
  "board wm_b1 = Some b1
   \<and> Reconfigure nativeConfig_double fromDependencies_double wm_b1 deps1 conf_bad
       = \<lparr>returned = Return (Some (Fundamental ''unexpected attributes'')),
          after = wm_new, events = []\<rparr>
   \<and> board (after (Reconfigure nativeConfig_double fromDependencies_double wm_b1 deps1 conf_bad))
       = None"
proof -
  have nil_on_error: "\<forall>d n b e. fromDependencies_double d n = (b, Some e) \<longrightarrow> b = None"
    by (simp add: fromDependencies_double_def split: option.split)
  have run: "Reconfigure nativeConfig_double fromDependencies_double wm_b1 deps1 conf_bad
       = \<lparr>returned = Return (Some (Fundamental ''unexpected attributes'')),
          after = wm_new, events = []\<rparr>"
    by (simp add: Reconfigure_def nativeConfig_double_def conf_bad_def wm_b1_eq wm_new_eq)
  then have "returned (Reconfigure nativeConfig_double fromDependencies_double wm_b1 deps1 conf_bad)
               \<noteq> Return None"
    by simp
  with Reconfigure_never_stale
    [where fromDependencies = fromDependencies_double and nativeConfig = nativeConfig_double
       and wm = wm_b1 and deps = deps1 and conf = conf_bad, OF nil_on_error]
  have "board (after (Reconfigure nativeConfig_double fromDependencies_double wm_b1 deps1 conf_bad))
          = None"
    by blast
  with run show ?thesis
    by (simp add: wm_b1_eq)
qed

subsection \<open>Construction, the unsupported operations and Close\<close>

text \<open>
  C9. Construction never fails: it returns a component with the name of the resource
  configuration and the given logger, with no board bound, and causes no event.
\<close>

theorem newWinchMotor_unbound:
  "newWinchMotor deps conf lg
     = ((\<lparr>Named = ResourceName conf, board = None, logger = lg\<rparr>, None), [])"
  by (simp add: newWinchMotor_def)

text \<open>
  C5, as stated, fails: the error of the unsupported operations is one shared value whose
  message is \<open>unimplemented\<close>; \<open>GoFor\<close> and \<open>Stop\<close> return the same error, which names
  neither of them.
\<close>

theorem stubs_error_counterexample:
  "returned (GoFor wm_new float64_zero float64_zero) = returned (Stop wm_new)
   \<and> returned (GoFor wm_new float64_zero float64_zero) = Return (Some (Fundamental ''unimplemented''))
   \<and> Error (Fundamental ''unimplemented'') = ''unimplemented''"
  by (simp add: GoFor_def Stop_def errUnimplemented_def errors_New_def)

text \<open>
  C5, amended. Each of the nine unsupported operations GoFor, GoTo, SetRPM,
  ResetZeroPosition, Position, IsMoving, IsPowered, Properties and Stop returns, for
  every input, the one shared error with the message \<open>unimplemented\<close> (with zero
  values for its other results), leaves the component unchanged and causes no event.
\<close>

theorem stubs_unimplemented:
  "GoFor wm rpm revolutions = \<lparr>returned = Return (Some errUnimplemented), after = wm, events = []\<rparr>
   \<and> GoTo wm rpm positionRevolutions
       = \<lparr>returned = Return (Some errUnimplemented), after = wm, events = []\<rparr>
   \<and> SetRPM wm rpm = \<lparr>returned = Return (Some errUnimplemented), after = wm, events = []\<rparr>
   \<and> ResetZeroPosition wm offset
       = \<lparr>returned = Return (Some errUnimplemented), after = wm, events = []\<rparr>
   \<and> Position wm
       = \<lparr>returned = Return (float64_zero, Some errUnimplemented), after = wm, events = []\<rparr>
   \<and> IsMoving wm = \<lparr>returned = Return (False, Some errUnimplemented), after = wm, events = []\<rparr>
   \<and> IsPowered wm
       = \<lparr>returned = Return (False, float64_zero, Some errUnimplemented), after = wm,
          events = []\<rparr>
   \<and> Properties wm
       = \<lparr>returned = Return (motor_Properties_zero, Some errUnimplemented), after = wm,
          events = []\<rparr>
   \<and> Stop wm = \<lparr>returned = Return (Some errUnimplemented), after = wm, events = []\<rparr>
   \<and> Error errUnimplemented = ''unimplemented''"
  by (simp add: GoFor_def GoTo_def SetRPM_def ResetZeroPosition_def Position_def IsMoving_def
      IsPowered_def Properties_def Stop_def errUnimplemented_def errors_New_def)

text \<open>
  C7. \<open>Close\<close> returns the shared unimplemented error for every component; the component,
  its bound board included, is unchanged and no pin is looked up or written.
\<close>

theorem Close_unimplemented:
  "Close wm = \<lparr>returned = Return (Some errUnimplemented), after = wm, events = []\<rparr>
   \<and> errUnimplemented = Fundamental ''unimplemented''"
  by (simp add: Close_def errUnimplemented_def errors_New_def)

subsection \<open>Validate\<close>

text \<open>
  C10. For every configuration and every path, \<open>Validate\<close> returns the one-element
  list holding the empty string, not the configured board name, and no error.
\<close>

theorem Validate_placeholder:
  "Validate cfg path = ([[]], None) \<and> Validate cfg path = Validate cfg' path'"
  by (simp add: Validate_def)

end
